theory Spec2Isabelle
  imports Main
begin

section \<open>JavaScript strings\<close>

text \<open>
  A JavaScript string is a sequence of UTF-16 code units and \<open>length\<close>, \<open>substring\<close>
  count code units. Here a string is a \<open>char list\<close>: one \<open>char\<close> per code unit, for the
  texts whose code units are all below 256 (Latin-1). The helpers below follow the
  ECMAScript definitions on that range.
\<close>

definition dq :: char where
  "dq = CHR 0x22"

definition nl :: char where
  "nl = CHR 0x0A"

definition backtick :: char where
  "backtick = CHR 0x60"

text \<open>\<open>String.prototype.trim\<close>: white space and line terminators below 256.\<close>

definition js_whitespace :: "char \<Rightarrow> bool" where
  "js_whitespace c \<longleftrightarrow> (of_char c :: nat) \<in> {9, 10, 11, 12, 13, 32, 160}"

definition js_trim :: "string \<Rightarrow> string" where
  "js_trim s = rev (dropWhile js_whitespace (rev (dropWhile js_whitespace s)))"

text \<open>\<open>String.prototype.toLowerCase\<close> on Latin-1: A-Z and the accented capitals
  0xC0-0xDE (without the multiplication sign 0xD7) move up by 32.\<close>

definition js_lower_char :: "char \<Rightarrow> char" where
  "js_lower_char c =
     (let n = (of_char c :: nat)
      in if (65 \<le> n \<and> n \<le> 90) \<or> (192 \<le> n \<and> n \<le> 222 \<and> n \<noteq> 215)
         then char_of (n + 32) else c)"

definition js_toLowerCase :: "string \<Rightarrow> string" where
  "js_toLowerCase s = map js_lower_char s"

text \<open>\<open>s.substring(0, n)\<close> for \<open>0 \<le> n\<close>.\<close>

definition js_substring0 :: "string \<Rightarrow> nat \<Rightarrow> string" where
  "js_substring0 s n = take n s"

text \<open>\<open>Array.prototype.join\<close>.\<close>

fun js_join :: "string \<Rightarrow> string list \<Rightarrow> string" where
  "js_join sep [] = []"
| "js_join sep [x] = x"
| "js_join sep (x # y # ys) = x @ sep @ js_join sep (y # ys)"

text \<open>A template literal prints a missing value as \<open>undefined\<close>.\<close>

definition js_interp :: "string option \<Rightarrow> string" where
  "js_interp v = (case v of None \<Rightarrow> ''undefined'' | Some s \<Rightarrow> s)"

text \<open>Truthiness of an optional string: missing and empty are falsy.\<close>

definition js_truthy :: "string option \<Rightarrow> bool" where
  "js_truthy v = (case v of None \<Rightarrow> False | Some s \<Rightarrow> s \<noteq> [])"

text \<open>\<open>v || d\<close> for an optional string \<open>v\<close> and a string \<open>d\<close>.\<close>

definition js_or :: "string option \<Rightarrow> string \<Rightarrow> string" where
  "js_or v d = (case v of None \<Rightarrow> d | Some s \<Rightarrow> if s = [] then d else s)"

text \<open>A JSON value as \<open>JSON.parse\<close> reads it. Strings and numbers keep their source text.\<close>

datatype json =
    JNull
  | JBool bool
  | JNumber string
  | JString string
  | JArray "json list"
  | JObject "(string \<times> json) list"

text \<open>\<open>Number.prototype.toString\<close> on an integer (decimal digits, a leading minus sign).\<close>

fun digits_of_nat :: "nat \<Rightarrow> string" where
  "digits_of_nat n =
     (if n < 10 then [char_of (48 + n)]
      else digits_of_nat (n div 10) @ [char_of (48 + n mod 10)])"

declare digits_of_nat.simps [simp del]

definition js_toString :: "int \<Rightarrow> string" where
  "js_toString i = (if i < 0 then CHR ''-'' # digits_of_nat (nat (- i)) else digits_of_nat (nat i))"


section \<open>Telegram webhook route\<close>

subsection \<open>Data\<close>

record ChatMessage =
  role :: string
  message_content :: string

record telegram_user_row =
  telegram_id :: string
  user_id :: string

record telegram_message_row =
  telegram_chat_id :: string
  telegram_user_id :: string
  content :: string
  is_bot :: bool

record tg_db =
  telegram_users :: "telegram_user_row list"
  telegram_messages :: "telegram_message_row list"

text \<open>The update posted by Telegram, after \<open>req.json()\<close>. \<open>NullUpdate\<close> is the JSON value
  \<open>null\<close>, on which \<open>data.message\<close> throws. A message of Telegram names its chat and, when
  it is a text message, its text; a body without the chat makes \<open>data.message.chat.id\<close>
  throw.\<close>

record tg_chat =
  chat_id :: int
  username :: "string option"

record tg_message =
  chat :: "tg_chat option"
  message_text :: "string option"

datatype tg_update = NullUpdate | Update "tg_message option"

text \<open>What \<open>fetchRelevantJournalEntries\<close> returns. The analysis and the recommendations are
  values of any shape; \<open>None\<close> stands for \<open>undefined\<close>.\<close>

record journal_context =
  entries :: "string list"
  moodAnalysis :: "json option"
  recommendations :: "json option"

text \<open>The outcome of one \<open>fetch\<close> to the Telegram API: a response with \<open>ok\<close>, a response
  without, or a rejected promise.\<close>

datatype fetch_outcome = FetchOk | FetchNotOk | FetchRejected

text \<open>The effects of a run in program order.\<close>

datatype tg_event =
    Transmit int string
  | ConsoleError string
  | ConsoleWarn string
  | JournalsFetched string string
  | ActivitiesFetched
  | UserContextFetched string string
  | GeminiSend "ChatMessage list" string

text \<open>The outcomes of the external calls of one run: which database calls report an
  error, what the context fetches find (\<open>None\<close>: the fetch fails), what the model answers
  (\<open>None\<close>: the call throws) and how the Telegram API answers the two sends.\<close>

record tg_world =
  users_select_error :: bool
  messages_delete_error :: bool
  user_insert_error :: bool
  bot_insert_error :: bool
  history_rpc_error :: bool
  journals_found :: "string \<Rightarrow> string \<Rightarrow> journal_context option"
  activities_found :: "string list option"
  user_context_found :: "string \<Rightarrow> string \<Rightarrow> string list option"
  gemini_reply :: "ChatMessage list \<Rightarrow> string \<Rightarrow> string option"
  send_first :: fetch_outcome
  send_retry :: fetch_outcome

text \<open>The pure helpers of \<open>@/lib/ai\<close> that the route imports; their code is not part of
  the sources at hand, so the route takes them as parameters.\<close>

record ai_lib =
  formatJournalEntries :: "string list \<Rightarrow> string"
  formatActivities :: "string list \<Rightarrow> string"
  formatUserContext :: "string list \<Rightarrow> string"
  prepareChatMessages ::
    "ChatMessage list \<Rightarrow> string \<Rightarrow> string \<Rightarrow> json option \<Rightarrow> json option
       \<Rightarrow> string \<Rightarrow> string \<Rightarrow> ChatMessage list"

record tg_env =
  TELEGRAM_BOT_TOKEN :: "string option"
  GEMINI_API_KEY :: "string option"

datatype tg_body = PlainText string | StatusOk | StatusOkNote string

record tg_response =
  status :: nat
  body :: tg_body

subsection \<open>sendTelegramMessage\<close>

definition fallback_text :: string where
  "fallback_text =
     ''Sorry, the response was too large or took too long. Please try again with a shorter message.''"

text \<open>The length limit applied before the first send.\<close>

definition limit_text :: "string \<Rightarrow> string" where
  "limit_text t = (if length t > 4000 then js_substring0 t 3997 @ ''...'' else t)"

text \<open>The first \<open>fetch\<close> carries the limited text. A rejected promise or a response that is
  not \<open>ok\<close> reaches the \<open>catch\<close>, which sends the fallback text once and only logs when
  that send is rejected too. Nothing is thrown to the caller.\<close>

definition sendTelegramMessage :: "tg_world \<Rightarrow> int \<Rightarrow> string \<Rightarrow> tg_event list" where
  "sendTelegramMessage w chatId t =
     Transmit chatId (limit_text t) #
     (if send_first w = FetchOk then []
      else ConsoleError ''Failed to send message:'' # Transmit chatId fallback_text #
           (if send_retry w = FetchRejected
            then [ConsoleError ''Also failed to send simplified message:''] else []))"

text \<open>The texts handed to the Telegram API in a trace.\<close>

fun transmitted :: "tg_event list \<Rightarrow> string list" where
  "transmitted [] = []"
| "transmitted (Transmit c t # es) = t # transmitted es"
| "transmitted (e # es) = transmitted es"

text \<open>The messages written with \<open>console.error\<close> in a trace.\<close>

fun console_errors :: "tg_event list \<Rightarrow> string list" where
  "console_errors [] = []"
| "console_errors (ConsoleError s # es) = s # console_errors es"
| "console_errors (e # es) = console_errors es"


text \<open>The calls that belong to the AI pipeline.\<close>

fun ai_event :: "tg_event \<Rightarrow> bool" where
  "ai_event (JournalsFetched u q) = True"
| "ai_event ActivitiesFetched = True"
| "ai_event (UserContextFetched u q) = True"
| "ai_event (GeminiSend h m) = True"
| "ai_event e = False"

subsection \<open>Chat history\<close>

text \<open>Modelled from the spec: the database function \<open>get_telegram_chat_history\<close> is not in
  the sources. The messages of a chat form an append-only log keyed by the external chat
  identifier; the function returns the newest \<open>p_limit\<close> messages of that chat, newest
  first (\<open>formatChatHistory\<close> reverses them into chronological order).\<close>

definition get_telegram_chat_history :: "tg_db \<Rightarrow> string \<Rightarrow> nat \<Rightarrow> telegram_message_row list" where
  "get_telegram_chat_history db p_chat_id p_limit =
     take p_limit (rev (filter (\<lambda>m. telegram_chat_id m = p_chat_id) (telegram_messages db)))"

definition getTelegramChatHistory ::
  "tg_world \<Rightarrow> tg_db \<Rightarrow> string \<Rightarrow> nat \<Rightarrow> telegram_message_row list \<times> tg_event list" where
  "getTelegramChatHistory w db chatId limit =
     (if history_rpc_error w then ([], [ConsoleError ''Error fetching chat history:''])
      else (get_telegram_chat_history db chatId limit, []))"

definition formatChatHistory :: "telegram_message_row list \<Rightarrow> string" where
  "formatChatHistory history =
     (if history = [] then []
      else js_join [nl, nl]
             (map (\<lambda>msg. (if is_bot msg then ''Assistant'' else ''User'') @ '': '' @ content msg)
                  (rev history)))"

text \<open>\<open>clearChatHistory\<close>: delete every row of the chat; a database error is thrown.\<close>

definition clearChatHistory :: "tg_world \<Rightarrow> tg_db \<Rightarrow> string \<Rightarrow> unit + tg_db" where
  "clearChatHistory w db chatId =
     (if messages_delete_error w then Inl ()
      else Inr (db\<lparr>telegram_messages :=
                     filter (\<lambda>m. telegram_chat_id m \<noteq> chatId) (telegram_messages db)\<rparr>))"

text \<open>\<open>from('telegram_users').select('user_id').eq('telegram_id', userName).single()\<close>:
  the row when exactly one matches and the call reports no error.\<close>

definition select_user :: "tg_world \<Rightarrow> tg_db \<Rightarrow> string \<Rightarrow> string option" where
  "select_user w db userName =
     (if users_select_error w then None
      else (case filter (\<lambda>r. telegram_id r = userName) (telegram_users db) of
              [r] \<Rightarrow> Some (user_id r)
            | _ \<Rightarrow> None))"

text \<open>\<open>from('telegram_messages').insert(row)\<close>; the route ignores its result.\<close>

definition insert_message :: "bool \<Rightarrow> tg_db \<Rightarrow> telegram_message_row \<Rightarrow> tg_db" where
  "insert_message fails db row =
     (if fails then db else db\<lparr>telegram_messages := telegram_messages db @ [row]\<rparr>)"

subsection \<open>Context fetches\<close>

text \<open>Modelled from the spec: \<open>fetchRelevantJournalEntries\<close> of \<open>@/lib/ai/journals\<close> is not
  in the sources. A failing fetch degrades to an empty result with a logged warning and
  never aborts the pipeline: the empty result has no entries, and a null analysis and null
  recommendations.\<close>

definition empty_journal_context :: journal_context where
  "empty_journal_context =
     \<lparr>entries = [], moodAnalysis = Some JNull, recommendations = Some JNull\<rparr>"

definition fetchRelevantJournalEntries ::
  "tg_world \<Rightarrow> string \<Rightarrow> string \<Rightarrow> journal_context \<times> tg_event list" where
  "fetchRelevantJournalEntries w userId query =
     (case journals_found w userId query of
        None \<Rightarrow> (empty_journal_context,
                 [JournalsFetched userId query, ConsoleWarn ''journal entries''])
      | Some r \<Rightarrow> (r, [JournalsFetched userId query]))"

text \<open>Modelled from the spec: \<open>fetchActivities\<close> of \<open>@/lib/ai/activities\<close> is not in the
  sources. A failing fetch degrades to an empty result with a logged warning.\<close>

definition fetchActivities :: "tg_world \<Rightarrow> string list \<times> tg_event list" where
  "fetchActivities w =
     (case activities_found w of
        None \<Rightarrow> ([], [ActivitiesFetched, ConsoleWarn ''activities''])
      | Some r \<Rightarrow> (r, [ActivitiesFetched]))"

text \<open>Modelled from the spec: \<open>fetchRelevantUserContext\<close> of \<open>@/lib/ai/user-context\<close> is not
  in the sources. A failing fetch degrades to an empty result with a logged warning.\<close>

definition fetchRelevantUserContext ::
  "tg_world \<Rightarrow> string \<Rightarrow> string \<Rightarrow> string list \<times> tg_event list" where
  "fetchRelevantUserContext w userId query =
     (case user_context_found w userId query of
        None \<Rightarrow> ([], [UserContextFetched userId query, ConsoleWarn ''user context''])
      | Some r \<Rightarrow> (r, [UserContextFetched userId query]))"

text \<open>The warning a failed fetch leaves in the log.\<close>

definition warn :: "bool \<Rightarrow> string \<Rightarrow> tg_event list" where
  "warn failed what = (if failed then [ConsoleWarn what] else [])"

subsection \<open>processUpdate\<close>

definition not_linked_text :: string where
  "not_linked_text = ''Sorry, your account is not linked. Please sign up on our website first.''"

definition cleared_text :: string where
  "cleared_text = ''Your chat history has been cleared.''"

definition went_wrong_text :: string where
  "went_wrong_text = ''Sorry, something went wrong processing your message.''"

text \<open>The \<open>catch\<close> of the inner \<open>try\<close>.\<close>

definition on_error :: "tg_world \<Rightarrow> int \<Rightarrow> tg_event list" where
  "on_error w chatId =
     ConsoleError ''Error processing message:'' # sendTelegramMessage w chatId went_wrong_text"

text \<open>The AI pipeline of the inner \<open>try\<close>, after the account check and the command check.
  \<open>getGeminiModel\<close> only builds the handle of the model; the call of the model is
  \<open>chat.sendMessage\<close>. The log line \<open>JSON.stringify(moodAnalysis).substring(0, 200)\<close> throws when the analysis is
  \<open>undefined\<close>; a failing model call throws as well.\<close>

definition answer_message ::
  "ai_lib \<Rightarrow> tg_world \<Rightarrow> tg_db \<Rightarrow> int \<Rightarrow> string \<Rightarrow> string \<Rightarrow> string \<Rightarrow> tg_db \<times> tg_event list" where
  "answer_message lib w db chatId userName userId userMessage =
     (let db1 = insert_message (user_insert_error w) db
                  \<lparr>telegram_chat_id = js_toString chatId, telegram_user_id = userName,
                   content = userMessage, is_bot = False\<rparr>;
          (chatHistory, ev_h) = getTelegramChatHistory w db1 (js_toString chatId) 10;
          formattedChatHistory = formatChatHistory chatHistory;
          messages = [\<lparr>role = ''user'', message_content = userMessage\<rparr>];
          (found, ev_j) = fetchRelevantJournalEntries w userId userMessage
      in if moodAnalysis found = None then (db1, ev_h @ ev_j @ on_error w chatId)
         else
          (let (activities, ev_a) = fetchActivities w;
               (userContextItems, ev_c) = fetchRelevantUserContext w userId userMessage;
               journalContext = formatJournalEntries lib (entries found);
               activitiesContext = formatActivities lib activities;
               userContext = formatUserContext lib userContextItems;
               geminiMessages = prepareChatMessages lib messages journalContext activitiesContext
                                  (moodAnalysis found) (recommendations found)
                                  formattedChatHistory userContext;
               evs = ev_h @ ev_j @ ev_a @ ev_c @ [GeminiSend geminiMessages userMessage]
           in case gemini_reply w geminiMessages userMessage of
                None \<Rightarrow> (db1, evs @ on_error w chatId)
              | Some aiResponse \<Rightarrow>
                  (insert_message (bot_insert_error w) db1
                     \<lparr>telegram_chat_id = js_toString chatId, telegram_user_id = userName,
                      content = aiResponse, is_bot = True\<rparr>,
                   evs @ sendTelegramMessage w chatId aiResponse)))"

text \<open>The inner \<open>try\<close>: account check first, then the \<open>/clear\<close> command, then the pipeline.\<close>

definition handle_text ::
  "ai_lib \<Rightarrow> tg_world \<Rightarrow> tg_db \<Rightarrow> int \<Rightarrow> string \<Rightarrow> string \<Rightarrow> tg_db \<times> tg_event list" where
  "handle_text lib w db chatId userName userMessage =
     (case select_user w db userName of
        None \<Rightarrow> (db, ConsoleError ''User not found:'' # sendTelegramMessage w chatId not_linked_text)
      | Some userId \<Rightarrow>
          if js_toLowerCase (js_trim userMessage) = ''/clear'' then
            (case clearChatHistory w db (js_toString chatId) of
               Inl _ \<Rightarrow> (db, ConsoleError ''Error clearing chat history:'' # on_error w chatId)
             | Inr db' \<Rightarrow> (db', sendTelegramMessage w chatId cleared_text))
          else answer_message lib w db chatId userName userId userMessage)"

definition processUpdate :: "ai_lib \<Rightarrow> tg_world \<Rightarrow> tg_db \<Rightarrow> tg_update \<Rightarrow> tg_db \<times> tg_event list" where
  "processUpdate lib w db data =
     (case data of
        NullUpdate \<Rightarrow> (db, [ConsoleError ''General error in processUpdate:''])
      | Update None \<Rightarrow> (db, [])
      | Update (Some m) \<Rightarrow>
          (case message_text m of
             None \<Rightarrow> (db, [])
           | Some userMessage \<Rightarrow>
               if userMessage = [] then (db, [])
               else (case chat m of
                       None \<Rightarrow> (db, [ConsoleError ''General error in processUpdate:''])
                     | Some c \<Rightarrow>
                         handle_text lib w db (chat_id c)
                           (js_or (username c) ''unknown'')
                           userMessage)))"


subsection \<open>POST\<close>

text \<open>The request body is \<open>None\<close> when \<open>req.json()\<close> rejects.\<close>

definition POST_telegram ::
  "tg_env \<Rightarrow> ai_lib \<Rightarrow> tg_world \<Rightarrow> tg_db \<Rightarrow> tg_update option
     \<Rightarrow> tg_response \<times> tg_db \<times> tg_event list" where
  "POST_telegram env lib w db req =
     (if \<not> js_truthy (TELEGRAM_BOT_TOKEN env)
        then (\<lparr>status = 500, body = PlainText ''Missing Telegram Bot Token''\<rparr>, db, [])
      else if \<not> js_truthy (GEMINI_API_KEY env)
        then (\<lparr>status = 500, body = PlainText ''Missing API key''\<rparr>, db, [])
      else (case req of
              None \<Rightarrow>
                (\<lparr>status = 200,
                  body = StatusOkNote ''Error occurred but still returning 200 to prevent retries''\<rparr>,
                 db, [ConsoleError ''Error processing webhook:''])
            | Some data \<Rightarrow>
                (let (db', evs) = processUpdate lib w db data
                 in (\<lparr>status = 200, body = StatusOk\<rparr>, db', evs))))"


section \<open>Journal route\<close>

subsection \<open>Platform functions\<close>

record URL =
  hostname :: string
  port :: string
  pathname :: string

text \<open>\<open>JSON.parse\<close> and the \<open>URL\<close> constructor belong to the platform, not to the
  repository: the route takes them as parameters, \<open>None\<close> standing for the exception
  each of them throws on a text it rejects.\<close>

record platform =
  JSON_parse :: "string \<Rightarrow> json option"
  new_URL :: "string \<Rightarrow> URL option"

subsection \<open>Data\<close>

record journal_env =
  NODE_ENV :: "string option"
  NEXT_PUBLIC_FLASK_API_URL :: "string option"

text \<open>The \<open>location\<close> of a request body, with the text \<open>JSON.stringify\<close> gives for it.\<close>

record location_value =
  placeName :: "string option"
  stringified :: string

record journal_body =
  body_title :: "string option"
  body_content :: "string option"
  body_location :: "location_value option"

text \<open>The request: its \<open>host\<close> header and its body (\<open>None\<close>: \<open>request.json()\<close> rejects).\<close>

record journal_request =
  host :: "string option"
  json_body :: "journal_body option"

text \<open>\<open>initialJournalData\<close>, and the row of table \<open>journals\<close> the insert returns: the data
  of the insert with the identifier the database gives it and the enrichment columns.\<close>

record initial_journal =
  journal_user_id :: "string option"
  title :: "string option"
  journal_content :: string
  tags :: json
  is_processing :: bool
  location :: "string option"
  created_at :: string

record journal = initial_journal +
  journal_id :: string
  summary :: "string option"
  mood_tags :: "string list option"
  journal_keywords :: "string list option"

datatype journal_payload =
    ErrorBody string
  | Created journal string string

record journal_response =
  http_status :: nat
  http_body :: journal_payload

record dispatch_options =
  opt_hostname :: string
  opt_port :: string
  opt_path :: string

record dispatch_payload =
  payload_text :: string
  payload_journal_id :: string
  payload_webhook_url :: string
  payload_location :: "string option"

text \<open>How the promise \<open>makeRequest\<close> settles: the response has ended (status code and
  data), the request emitted \<open>error\<close>, or the 10 second timeout fired.\<close>

datatype dispatch_outcome =
    FlaskResponded nat string
  | FlaskRequestError string
  | FlaskTimeout

datatype auth_result = AuthRejected | NoSession | Session string

datatype insert_outcome = InsertError string | InsertOk string

text \<open>The effects of a run in program order; the response is the last of them.\<close>

datatype journal_event =
    JConsoleError string
  | GenerateContent string
  | RowInserted journal
  | DispatchSent dispatch_options dispatch_payload
  | DispatchSettled dispatch_outcome
  | ResponseReturned journal_response

text \<open>The outcomes of the external calls of one run: \<open>requireAuth\<close>, the model's text for a
  prompt (\<open>None\<close>: the call throws), the insert (an error message, or the identifier of
  the new row), the dispatch, and the clock.\<close>

record journal_world =
  auth :: auth_result
  generated_text :: "string \<Rightarrow> string option"
  insert_result :: insert_outcome
  dispatch_result :: dispatch_outcome
  now_iso :: string

subsection \<open>generateTags\<close>

definition tags_prompt :: "string \<Rightarrow> string" where
  "tags_prompt c =
     ''Generate 3-5 relevant tags for this journal entry. Return ONLY a JSON array of strings, with no markdown formatting or explanation. Example: [''
     @ [dq] @ ''tag1'' @ [dq] @ '', '' @ [dq] @ ''tag2'' @ [dq] @ '', '' @ [dq] @ ''tag3'' @ [dq]
     @ '']. For this content: '' @ c"

text \<open>A line feed right after a match belongs to the match (\<open>\n?\<close>).\<close>

definition drop_nl :: "string \<Rightarrow> string" where
  "drop_nl r = (case r of [] \<Rightarrow> [] | c # r' \<Rightarrow> if c = nl then r' else r)"

text \<open>\<open>s.replace(/pat\n?/g, '')\<close> for a literal, non-empty \<open>pat\<close>: matches are found left to
  right and do not overlap.\<close>

function remove_all :: "string \<Rightarrow> string \<Rightarrow> string" where
  "remove_all pat s =
     (if s = [] \<or> pat = [] then s
      else if take (length pat) s = pat then remove_all pat (drop_nl (drop (length pat) s))
      else hd s # remove_all pat (tl s))"
  by pat_completeness auto
termination
proof (relation "measure (\<lambda>(pat, s). length s)")
  fix pat s :: string
  assume a: "\<not> (s = [] \<or> pat = [])"
  have "length (drop_nl (drop (length pat) s)) \<le> length (drop (length pat) s)"
    by (cases "drop (length pat) s") (simp_all add: drop_nl_def)
  also have "\<dots> < length s"
    using a by simp
  finally show "((pat, drop_nl (drop (length pat) s)), (pat, s)) \<in> measure (\<lambda>(pat, s). length s)"
    by simp
next
  fix pat s :: string
  assume "\<not> (s = [] \<or> pat = [])"
  then show "((pat, tl s), (pat, s)) \<in> measure (\<lambda>(pat, s). length s)"
    by simp
qed simp

declare remove_all.simps [simp del]

definition cleanJson :: "string \<Rightarrow> string" where
  "cleanJson t =
     js_trim (remove_all [backtick, backtick, backtick]
                (remove_all ([backtick, backtick, backtick] @ ''json'') t))"

text \<open>\<open>generateTags\<close> returns whatever \<open>JSON.parse\<close> yields; only its exception is caught.
  A failing model call is thrown to the caller (\<open>Inl\<close>).\<close>

definition generateTags ::
  "platform \<Rightarrow> journal_world \<Rightarrow> string \<Rightarrow> (unit + json) \<times> journal_event list" where
  "generateTags pf w c =
     (case generated_text w (tags_prompt c) of
        None \<Rightarrow> (Inl (), [GenerateContent (tags_prompt c)])
      | Some t \<Rightarrow>
          (case JSON_parse pf (cleanJson t) of
             Some v \<Rightarrow> (Inr v, [GenerateContent (tags_prompt c)])
           | None \<Rightarrow> (Inr (JArray []),
                      [GenerateContent (tags_prompt c), JConsoleError ''Failed to parse tags:''])))"

subsection \<open>POST\<close>

text \<open>The table \<open>journals\<close> is kept by the database service: a successful insert stores the
  given columns under a new identifier and returns the stored row; the columns the insert
  does not name (summary, mood tags, keywords) are null until the webhook fills them.\<close>

definition stored_row :: "string \<Rightarrow> initial_journal \<Rightarrow> journal" where
  "stored_row i d =
     \<lparr>journal_user_id = journal_user_id d, title = title d, journal_content = journal_content d,
      tags = tags d, is_processing = is_processing d, location = location d,
      created_at = created_at d,
      journal_id = i, summary = None, mood_tags = None, journal_keywords = None\<rparr>"

definition webhookUrl :: "journal_env \<Rightarrow> journal_request \<Rightarrow> string" where
  "webhookUrl env req =
     (if NODE_ENV env = Some ''development''
      then ''https://serenity-ai-frontend.vercel.app/api/journal/webhook''
      else (if NODE_ENV env = Some ''production'' then ''https'' else ''http'')
           @ ''://'' @ js_or (host req) ''localhost:3000'' @ ''/api/journal/webhook'')"

text \<open>What the handlers of \<open>makeRequest\<close> and the \<open>catch\<close> around \<open>await makeRequest\<close>
  write with \<open>console.error\<close>. On the timeout \<open>req.destroy()\<close> makes the request emit
  \<open>error\<close>, so the handler of \<open>error\<close> writes its two lines as well; of the two calls of
  \<open>reject\<close> only the first counts.\<close>

fun settle_log :: "dispatch_outcome \<Rightarrow> journal_event list" where
  "settle_log (FlaskResponded code d) =
     (if code \<noteq> 200
      then [JConsoleError ''Flask API returned error status'', JConsoleError ''Response data'',
            JConsoleError ''Failed to send request to Flask API:'']
      else [])"
| "settle_log (FlaskRequestError e) =
     [JConsoleError ''Error sending request to Flask API:'', JConsoleError ''Error details:'',
      JConsoleError ''Failed to send request to Flask API:'']"
| "settle_log FlaskTimeout =
     [JConsoleError ''Request to Flask API timed out after 10 seconds'',
      JConsoleError ''Error sending request to Flask API:'', JConsoleError ''Error details:'',
      JConsoleError ''Failed to send request to Flask API:'']"

text \<open>\<open>return NextResponse.json(...)\<close>.\<close>

definition respond ::
  "journal_response \<Rightarrow> journal list \<Rightarrow> journal_event list
     \<Rightarrow> journal_response \<times> journal list \<times> journal_event list" where
  "respond r db evs = (r, db, evs @ [ResponseReturned r])"

text \<open>Whether the promise of the dispatch has settled by the time the response is returned.\<close>

fun is_settled :: "journal_event \<Rightarrow> bool" where
  "is_settled (DispatchSettled out) = True"
| "is_settled e = False"

fun is_response :: "journal_event \<Rightarrow> bool" where
  "is_response (ResponseReturned r) = True"
| "is_response e = False"

definition settled_before_response :: "journal_event list \<Rightarrow> bool" where
  "settled_before_response evs = list_ex is_settled (takeWhile (\<lambda>e. \<not> is_response e) evs)"

text \<open>The \<open>catch\<close> of the outer \<open>try\<close>.\<close>

definition creation_failed ::
  "journal list \<Rightarrow> journal_event list \<Rightarrow> journal_response \<times> journal list \<times> journal_event list" where
  "creation_failed db evs =
     respond \<lparr>http_status = 500, http_body = ErrorBody ''Failed to create journal''\<rparr> db
       (evs @ [JConsoleError ''Journal creation error:''])"

text \<open>The part of \<open>POST\<close> after a successful insert: the target is built outside the inner
  \<open>try\<close>, the request is sent and \<open>await makeRequest\<close> holds the handler until the promise
  has settled; then the row is returned.\<close>

definition dispatch_and_return ::
  "platform \<Rightarrow> journal_env \<Rightarrow> journal_world \<Rightarrow> journal_request \<Rightarrow> string
     \<Rightarrow> location_value option \<Rightarrow> journal \<Rightarrow> journal list \<Rightarrow> journal_event list
     \<Rightarrow> journal_response \<times> journal list \<times> journal_event list" where
  "dispatch_and_return pf env w req c loc j db evs =
     (case new_URL pf (js_interp (NEXT_PUBLIC_FLASK_API_URL env) @ ''/journal-async'') of
        None \<Rightarrow> creation_failed db evs
      | Some url \<Rightarrow>
          respond
            \<lparr>http_status = 200,
             http_body = Created j ''processing'' ''Journal created. Content is being processed.''\<rparr>
            db
            (evs @
             [DispatchSent
                \<lparr>opt_hostname = hostname url,
                 opt_port = (if port url = [] then ''443'' else port url),
                 opt_path = pathname url\<rparr>
                \<lparr>payload_text = c, payload_journal_id = journal_id j,
                 payload_webhook_url = webhookUrl env req,
                 payload_location =
                   (case loc of None \<Rightarrow> None | Some l \<Rightarrow> Some (js_or (placeName l) ''pune''))\<rparr>,
              DispatchSettled (dispatch_result w)] @
             settle_log (dispatch_result w)))"

text \<open>\<open>initialJournalData\<close>; \<open>session?.user.id\<close> is missing when there is no session.\<close>

definition initialJournalData ::
  "journal_world \<Rightarrow> journal_body \<Rightarrow> string \<Rightarrow> json \<Rightarrow> initial_journal" where
  "initialJournalData w b c tgs =
     \<lparr>journal_user_id = (case auth w of Session u \<Rightarrow> Some u | _ \<Rightarrow> None),
      title = body_title b, journal_content = c, tags = tgs, is_processing = True,
      location = map_option stringified (body_location b),
      created_at = now_iso w\<rparr>"

definition POST_journal ::
  "platform \<Rightarrow> journal_env \<Rightarrow> journal_world \<Rightarrow> journal list \<Rightarrow> journal_request
     \<Rightarrow> journal_response \<times> journal list \<times> journal_event list" where
  "POST_journal pf env w db req =
     (case auth w of
        AuthRejected \<Rightarrow> creation_failed db []
      | _ \<Rightarrow>
        (case json_body req of
           None \<Rightarrow> creation_failed db []
         | Some b \<Rightarrow>
           (case body_content b of
              None \<Rightarrow> creation_failed db []
            | Some c \<Rightarrow>
              (case generateTags pf w c of
                 (Inl _, evs) \<Rightarrow> creation_failed db evs
               | (Inr tgs, evs) \<Rightarrow>
                 (case insert_result w of
                    InsertError msg \<Rightarrow>
                      respond \<lparr>http_status = 500, http_body = ErrorBody msg\<rparr> db
                        (evs @ [JConsoleError ''Supabase insert error:''])
                  | InsertOk i \<Rightarrow>
                      (let j = stored_row i (initialJournalData w b c tgs)
                       in dispatch_and_return pf env w req c (body_location b) j
                            (db @ [j]) (evs @ [RowInserted j])))))))"


section \<open>A platform instance\<close>

text \<open>The theorems below hold for every \<open>JSON.parse\<close> and every \<open>URL\<close> constructor. To run
  the routes on concrete requests, this section gives one reading of each: a JSON reader
  after ECMA-404, and a URL reader after the URL standard for an address given without a
  base. The URL reader strips surrounding blanks, wants a scheme (a text without one is
  rejected), cuts the query and the fragment off the path, reads host and port of the
  schemes with a default port (\<open>http\<close>, \<open>https\<close>, \<open>ws\<close>, \<open>wss\<close>, \<open>ftp\<close>) and of any other
  scheme followed by \<open>//\<close>, and takes what follows any other scheme as the path. It does
  not read \<open>file\<close> addresses, IPv6 literals or numeric hosts, and it neither removes dot
  segments nor percent-encodes.\<close>

definition json_ws :: "char \<Rightarrow> bool" where
  "json_ws c \<longleftrightarrow> (of_char c :: nat) \<in> {32, 9, 10, 13}"

definition skip_ws :: "string \<Rightarrow> string" where
  "skip_ws s = dropWhile json_ws s"

definition is_digit :: "char \<Rightarrow> bool" where
  "is_digit c \<longleftrightarrow> 48 \<le> (of_char c :: nat) \<and> (of_char c :: nat) \<le> 57"

definition is_hex :: "char \<Rightarrow> bool" where
  "is_hex c \<longleftrightarrow>
     (let n = (of_char c :: nat)
      in (48 \<le> n \<and> n \<le> 57) \<or> (65 \<le> n \<and> n \<le> 70) \<or> (97 \<le> n \<and> n \<le> 102))"

definition backslash :: char where
  "backslash = CHR 0x5C"

fun lex_string :: "string \<Rightarrow> (string \<times> string) option" where
  "lex_string [] = None"
| "lex_string (c # cs) =
     (if c = dq then Some ([], cs)
      else if c = backslash then
        (case cs of
           [] \<Rightarrow> None
         | e # r \<Rightarrow>
             if e \<in> set (dq # backslash # ''/bfnrt'')
               then map_option (\<lambda>(x, t). (c # e # x, t)) (lex_string r)
             else if e = CHR ''u'' then
               (case r of
                  h1 # h2 # h3 # h4 # r' \<Rightarrow>
                    if is_hex h1 \<and> is_hex h2 \<and> is_hex h3 \<and> is_hex h4
                    then map_option (\<lambda>(x, t). (c # e # h1 # h2 # h3 # h4 # x, t)) (lex_string r')
                    else None
                | _ \<Rightarrow> None)
             else None)
      else if (of_char c :: nat) < 32 then None
      else map_option (\<lambda>(x, t). (c # x, t)) (lex_string cs))"

definition lex_digits :: "string \<Rightarrow> (string \<times> string) option" where
  "lex_digits s = (if takeWhile is_digit s = [] then None
                   else Some (takeWhile is_digit s, dropWhile is_digit s))"

definition lex_number :: "string \<Rightarrow> (string \<times> string) option" where
  "lex_number s =
     (let (sgn, s1) = (case s of c # r \<Rightarrow> if c = CHR ''-'' then ([c], r) else ([], s) | [] \<Rightarrow> ([], s))
      in case lex_digits s1 of
           None \<Rightarrow> None
         | Some (ip, s2) \<Rightarrow>
             if length ip > 1 \<and> hd ip = CHR ''0'' then None
             else
               (case (case s2 of
                        c # r \<Rightarrow> if c = CHR ''.''
                                 then map_option (\<lambda>(d, t). (c # d, t)) (lex_digits r)
                                 else Some ([], s2)
                      | [] \<Rightarrow> Some ([], s2)) of
                  None \<Rightarrow> None
                | Some (fp, s3) \<Rightarrow>
                    (case (case s3 of
                             c # r \<Rightarrow>
                               if c = CHR ''e'' \<or> c = CHR ''E'' then
                                 (case r of
                                    g # r' \<Rightarrow>
                                      if g = CHR ''+'' \<or> g = CHR ''-''
                                      then map_option (\<lambda>(d, t). (c # g # d, t)) (lex_digits r')
                                      else map_option (\<lambda>(d, t). (c # d, t)) (lex_digits r)
                                  | [] \<Rightarrow> None)
                               else Some ([], s3)
                           | [] \<Rightarrow> Some ([], s3)) of
                       None \<Rightarrow> None
                     | Some (ep, s4) \<Rightarrow> Some (sgn @ ip @ fp @ ep, s4))))"

fun parse_value :: "nat \<Rightarrow> string \<Rightarrow> (json \<times> string) option"
  and parse_elements :: "nat \<Rightarrow> string \<Rightarrow> (json list \<times> string) option"
  and parse_members :: "nat \<Rightarrow> string \<Rightarrow> ((string \<times> json) list \<times> string) option"
where
  "parse_value 0 s = None"
| "parse_value (Suc n) s =
     (case s of
        [] \<Rightarrow> None
      | c # r \<Rightarrow>
          if c = CHR ''['' then
            (case skip_ws r of
               [] \<Rightarrow> None
             | c' # r' \<Rightarrow>
                 if c' = CHR '']'' then Some (JArray [], r')
                 else map_option (\<lambda>(vs, t). (JArray vs, t)) (parse_elements n (c' # r')))
          else if c = CHR ''{'' then
            (case skip_ws r of
               [] \<Rightarrow> None
             | c' # r' \<Rightarrow>
                 if c' = CHR ''}'' then Some (JObject [], r')
                 else map_option (\<lambda>(ms, t). (JObject ms, t)) (parse_members n (c' # r')))
          else if c = dq then map_option (\<lambda>(x, t). (JString x, t)) (lex_string r)
          else if take 4 s = ''true'' then Some (JBool True, drop 4 s)
          else if take 5 s = ''false'' then Some (JBool False, drop 5 s)
          else if take 4 s = ''null'' then Some (JNull, drop 4 s)
          else map_option (\<lambda>(x, t). (JNumber x, t)) (lex_number s))"
| "parse_elements 0 s = None"
| "parse_elements (Suc n) s =
     (case parse_value n s of
        None \<Rightarrow> None
      | Some (v, r) \<Rightarrow>
          (case skip_ws r of
             [] \<Rightarrow> None
           | c # r' \<Rightarrow>
               if c = CHR '']'' then Some ([v], r')
               else if c = CHR '','' then
                 map_option (\<lambda>(vs, t). (v # vs, t)) (parse_elements n (skip_ws r'))
               else None))"
| "parse_members 0 s = None"
| "parse_members (Suc n) s =
     (case s of
        [] \<Rightarrow> None
      | c # r \<Rightarrow>
          if c \<noteq> dq then None
          else
            (case lex_string r of
               None \<Rightarrow> None
             | Some (k, r1) \<Rightarrow>
                 (case skip_ws r1 of
                    [] \<Rightarrow> None
                  | c1 # r2 \<Rightarrow>
                      if c1 \<noteq> CHR '':'' then None
                      else
                        (case parse_value n (skip_ws r2) of
                           None \<Rightarrow> None
                         | Some (v, r3) \<Rightarrow>
                             (case skip_ws r3 of
                                [] \<Rightarrow> None
                              | c3 # r4 \<Rightarrow>
                                  if c3 = CHR ''}'' then Some ([(k, v)], r4)
                                  else if c3 = CHR '','' then
                                    map_option (\<lambda>(ms, t). ((k, v) # ms, t))
                                      (parse_members n (skip_ws r4))
                                  else None)))))"

definition parse_json :: "string \<Rightarrow> json option" where
  "parse_json s =
     (case parse_value (2 * length s + 2) (skip_ws s) of
        None \<Rightarrow> None
      | Some (v, r) \<Rightarrow> if skip_ws r = [] then Some v else None)"


text \<open>The fuel bounds the number of nested calls, which is at most twice the number of
  characters.\<close>

definition not_colon :: "char \<Rightarrow> bool" where
  "not_colon c \<longleftrightarrow> c \<noteq> CHR '':''"

definition not_slash :: "char \<Rightarrow> bool" where
  "not_slash c \<longleftrightarrow> c \<noteq> CHR ''/''"

definition is_alpha :: "char \<Rightarrow> bool" where
  "is_alpha c \<longleftrightarrow>
     (let n = (of_char c :: nat) in (65 \<le> n \<and> n \<le> 90) \<or> (97 \<le> n \<and> n \<le> 122))"

definition scheme_char :: "char \<Rightarrow> bool" where
  "scheme_char c \<longleftrightarrow> is_alpha c \<or> is_digit c \<or> c = CHR ''+'' \<or> c = CHR ''-'' \<or> c = CHR ''.''"

definition c0_or_space :: "char \<Rightarrow> bool" where
  "c0_or_space c \<longleftrightarrow> (of_char c :: nat) \<le> 32"

definition tab_or_newline :: "char \<Rightarrow> bool" where
  "tab_or_newline c \<longleftrightarrow> (of_char c :: nat) \<in> {9, 10, 13}"

definition not_at :: "char \<Rightarrow> bool" where
  "not_at c \<longleftrightarrow> c \<noteq> CHR ''@''"

definition in_path :: "char \<Rightarrow> bool" where
  "in_path c \<longleftrightarrow> c \<noteq> CHR ''?'' \<and> c \<noteq> CHR ''#''"

definition is_slash :: "char \<Rightarrow> bool" where
  "is_slash c \<longleftrightarrow> c = CHR ''/''"

definition slash_of_backslash :: "char \<Rightarrow> char" where
  "slash_of_backslash c = (if c = backslash then CHR ''/'' else c)"

definition nat_of_digits :: "string \<Rightarrow> nat" where
  "nat_of_digits ds = foldl (\<lambda>n c. 10 * n + ((of_char c :: nat) - 48)) 0 ds"

definition default_port :: "string \<Rightarrow> nat option" where
  "default_port scheme =
     (if scheme = ''http'' \<or> scheme = ''ws'' then Some 80
      else if scheme = ''https'' \<or> scheme = ''wss'' then Some 443
      else if scheme = ''ftp'' then Some 21
      else None)"

text \<open>Host and port of an authority; user info, the part up to the last \<open>@\<close>, is left out.
  A port that is the default of the scheme reads as the empty text.\<close>

definition parse_authority :: "string \<Rightarrow> string \<Rightarrow> bool \<Rightarrow> (string \<times> string) option" where
  "parse_authority scheme authority host_needed =
     (let hostport = rev (takeWhile not_at (rev authority));
          h = takeWhile not_colon hostport;
          p = drop 1 (dropWhile not_colon hostport)
      in if (host_needed \<and> h = []) \<or> \<not> list_all is_digit p then None
         else if p = [] then Some (h, [])
         else if nat_of_digits p > 65535 then None
         else if Some (nat_of_digits p) = default_port scheme then Some (h, [])
         else Some (h, digits_of_nat (nat_of_digits p)))"

definition parse_url :: "string \<Rightarrow> URL option" where
  "parse_url s =
     (let s1 = filter (\<lambda>c. \<not> tab_or_newline c)
                 (rev (dropWhile c0_or_space (rev (dropWhile c0_or_space s))));
          scheme = js_toLowerCase (takeWhile not_colon s1);
          body = takeWhile in_path (drop 1 (dropWhile not_colon s1))
      in if dropWhile not_colon s1 = [] \<or> scheme = [] \<or> \<not> is_alpha (hd scheme)
            \<or> \<not> list_all scheme_char scheme
         then None
         else if default_port scheme \<noteq> None then
           (let after = dropWhile is_slash (map slash_of_backslash body)
            in case parse_authority scheme (takeWhile not_slash after) True of
                 None \<Rightarrow> None
               | Some (h, p) \<Rightarrow>
                   Some \<lparr>hostname = js_toLowerCase h, port = p,
                         pathname = (if dropWhile not_slash after = [] then ''/''
                                     else dropWhile not_slash after)\<rparr>)
         else if scheme \<noteq> ''file'' \<and> take 2 body = ''//'' then
           (case parse_authority scheme (takeWhile not_slash (drop 2 body)) False of
              None \<Rightarrow> None
            | Some (h, p) \<Rightarrow>
                Some \<lparr>hostname = h, port = p, pathname = dropWhile not_slash (drop 2 body)\<rparr>)
         else if scheme = ''file'' then None
         else Some \<lparr>hostname = [], port = [], pathname = body\<rparr>)"

definition node_platform :: platform where
  "node_platform = \<lparr>JSON_parse = parse_json, new_URL = parse_url\<rparr>"


section \<open>Sample requests\<close>

definition sample_lib :: ai_lib where
  "sample_lib =
     \<lparr>formatJournalEntries = js_join [nl],
      formatActivities = js_join [nl],
      formatUserContext = js_join [nl],
      prepareChatMessages =
        (\<lambda>msgs jc ac mood recs hist uc.
           \<lparr>role = ''user'', message_content = js_join [nl] [jc, ac, hist, uc]\<rparr> # msgs)\<rparr>"

text \<open>A run in which every external call succeeds.\<close>

definition calm_world :: tg_world where
  "calm_world =
     \<lparr>users_select_error = False, messages_delete_error = False, user_insert_error = False,
      bot_insert_error = False, history_rpc_error = False,
      journals_found =
        (\<lambda>u q. Some \<lparr>entries = [''A quiet day''], moodAnalysis = Some (JString ''calm''),
                        recommendations = Some JNull\<rparr>),
      activities_found = Some [''Walk''],
      user_context_found = (\<lambda>u q. Some [''Pune'']),
      gemini_reply = (\<lambda>h m. Some ''Take a short walk.''),
      send_first = FetchOk, send_retry = FetchOk\<rparr>"

definition sample_db :: tg_db where
  "sample_db =
     \<lparr>telegram_users = [\<lparr>telegram_id = ''ann'', user_id = ''u1''\<rparr>],
      telegram_messages =
        [\<lparr>telegram_chat_id = ''7'', telegram_user_id = ''ann'', content = ''hello'', is_bot = False\<rparr>,
         \<lparr>telegram_chat_id = ''7'', telegram_user_id = ''ann'', content = ''Hi Ann'', is_bot = True\<rparr>,
         \<lparr>telegram_chat_id = ''8'', telegram_user_id = ''bob'', content = ''hey'', is_bot = False\<rparr>]\<rparr>"

definition sample_env :: tg_env where
  "sample_env = \<lparr>TELEGRAM_BOT_TOKEN = Some ''123:abc'', GEMINI_API_KEY = Some ''key''\<rparr>"

text \<open>A text message of chat 7 from the account \<open>name\<close>.\<close>

definition text_update :: "string \<Rightarrow> string \<Rightarrow> tg_update" where
  "text_update name t =
     Update (Some \<lparr>chat = Some \<lparr>chat_id = 7, username = Some name\<rparr>, message_text = Some t\<rparr>)"

text \<open>A message of chat 7 that carries no text (a photo, a sticker).\<close>

definition photo_update :: "string \<Rightarrow> tg_update" where
  "photo_update name =
     Update (Some \<lparr>chat = Some \<lparr>chat_id = 7, username = Some name\<rparr>, message_text = None\<rparr>)"

definition sample_journal_env :: journal_env where
  "sample_journal_env =
     \<lparr>NODE_ENV = Some ''production'',
      NEXT_PUBLIC_FLASK_API_URL = Some ''https://flask.example.com''\<rparr>"

definition sample_journal_request :: journal_request where
  "sample_journal_request =
     \<lparr>host = Some ''serenity.example.com'',
      json_body = Some \<lparr>body_title = Some ''Monday'', body_content = Some ''A quiet day'',
                        body_location = None\<rparr>\<rparr>"

text \<open>A run in which the model answers with prose instead of JSON, the insert succeeds
  and the processing service answers 200.\<close>

definition sample_journal_world :: journal_world where
  "sample_journal_world =
     \<lparr>auth = Session ''u1'',
      generated_text = (\<lambda>p. Some ''Here are some tags: calm, work''),
      insert_result = InsertOk ''j1'',
      dispatch_result = FlaskResponded 200 ''queued'',
      now_iso = ''2025-01-06T08:00:00.000Z''\<rparr>"

definition sample_journal :: journal where
  "sample_journal =
     \<lparr>journal_user_id = Some ''u1'', title = Some ''Monday'', journal_content = ''A quiet day'',
      tags = JArray [], is_processing = True, location = None,
      created_at = ''2025-01-06T08:00:00.000Z'',
      journal_id = ''j1'', summary = None, mood_tags = None, journal_keywords = None\<rparr>"


text \<open>A run in which the three context fetches fail.\<close>

definition stormy_world :: tg_world where
  "stormy_world =
     calm_world\<lparr>journals_found := (\<lambda>u q. None), activities_found := None,
                user_context_found := (\<lambda>u q. None)\<rparr>"


section \<open>Outbound Telegram messages\<close>

lemma length_fallback_text: "length fallback_text = 92"
  by (simp add: fallback_text_def)

lemma transmitted_send:
  "transmitted (sendTelegramMessage w c t) =
     limit_text t # (if send_first w = FetchOk then [] else [fallback_text])"
  by (simp add: sendTelegramMessage_def)

lemma no_ai_event_send: "filter ai_event (sendTelegramMessage w c t) = []"
  by (simp add: sendTelegramMessage_def)

lemma limit_not_linked_text: "limit_text not_linked_text = not_linked_text"
  by (simp add: limit_text_def not_linked_text_def)

lemma limit_cleared_text: "limit_text cleared_text = cleared_text"
  by (simp add: limit_text_def cleared_text_def)

lemma limit_went_wrong_text: "limit_text went_wrong_text = went_wrong_text"
  by (simp add: limit_text_def went_wrong_text_def)

text \<open>
  C4: a text of more than 4000 characters is handed to the Telegram API as its first 3997
  characters followed by the three characters \<open>...\<close>, 4000 characters in all. (When that
  send fails, the fixed fallback text is sent after it.)
\<close>

theorem long_text_is_cut:
  assumes "4000 < length t"
  shows "transmitted (sendTelegramMessage w chatId t) =
           (take 3997 t @ ''...'') # (if send_first w = FetchOk then [] else [fallback_text])
         \<and> length (take 3997 t @ ''...'') = 4000"
  using assms by (simp add: transmitted_send limit_text_def js_substring0_def)

theorem long_text_is_cut_witness:
  "4000 < length (replicate 4001 (CHR ''a''))
   \<and> transmitted (sendTelegramMessage calm_world 7 (replicate 4001 (CHR ''a''))) =
       [replicate 3997 (CHR ''a'') @ ''...'']"
proof -
  have h: "4000 < length (replicate 4001 (CHR ''a''))" by simp
  show ?thesis
    using h long_text_is_cut [OF h, of calm_world 7] by (simp add: calm_world_def)
qed

text \<open>
  C9: a text of at most 4000 characters, 4000 included, is handed to the Telegram API
  unchanged; and whatever the text, every text handed over has at most 4000 characters.
\<close>

theorem short_text_unchanged:
  "(length t \<le> 4000 \<longrightarrow>
      transmitted (sendTelegramMessage w chatId t) =
        t # (if send_first w = FetchOk then [] else [fallback_text]))
   \<and> (\<forall>x \<in> set (transmitted (sendTelegramMessage w chatId t)). length x \<le> 4000)"
  by (simp add: transmitted_send limit_text_def js_substring0_def length_fallback_text)

theorem short_text_unchanged_witness:
  "length (replicate 4000 (CHR ''a'')) \<le> 4000
   \<and> transmitted (sendTelegramMessage calm_world 7 (replicate 4000 (CHR ''a''))) =
       [replicate 4000 (CHR ''a'')]
   \<and> map length (transmitted (sendTelegramMessage calm_world 7 (replicate 4000 (CHR ''a'')))) =
       [4000]"
  using short_text_unchanged [of "replicate 4000 (CHR ''a'')" calm_world 7]
  by (simp add: calm_world_def)


section \<open>The Telegram webhook\<close>

lemma select_user_no_row:
  "filter (\<lambda>r. telegram_id r = name) (telegram_users db) = [] \<Longrightarrow> select_user w db name = None"
  by (simp add: select_user_def)

lemma handle_text_unlinked:
  assumes "select_user w db name = None"
  shows "handle_text lib w db c name t =
           (db, ConsoleError ''User not found:'' # sendTelegramMessage w c not_linked_text)"
  using assms by (simp add: handle_text_def)

lemma handle_text_linked:
  assumes "select_user w db name = Some uid" and "js_toLowerCase (js_trim t) \<noteq> ''/clear''"
  shows "handle_text lib w db c name t = answer_message lib w db c name uid t"
  using assms by (simp add: handle_text_def)

lemma clear_text_not_empty: "js_toLowerCase (js_trim t) = ''/clear'' \<Longrightarrow> t \<noteq> []"
  by (auto simp: js_toLowerCase_def js_trim_def)

lemma processUpdate_text:
  assumes "message_text m = Some t" and "t \<noteq> []" and "chat m = Some c"
  shows "processUpdate lib w db (Update (Some m)) =
           handle_text lib w db (chat_id c) (js_or (username c) ''unknown'') t"
  using assms by (simp add: processUpdate_def)

lemma history_after_clear:
  "get_telegram_chat_history
     (db\<lparr>telegram_messages := filter (\<lambda>m. telegram_chat_id m \<noteq> c) (telegram_messages db)\<rparr>) c n = []"
  by (simp add: get_telegram_chat_history_def filter_empty_conv)

lemma fetch_history_after_clear:
  "fst (getTelegramChatHistory w'
     (db\<lparr>telegram_messages := filter (\<lambda>m. telegram_chat_id m \<noteq> c) (telegram_messages db)\<rparr>) c n) = []"
  by (simp add: getTelegramChatHistory_def history_after_clear)

lemma no_ai_event_on_error: "filter ai_event (on_error w c) = []"
  by (simp add: on_error_def no_ai_event_send)

lemma transmitted_on_error:
  "transmitted (on_error w c) = went_wrong_text # (if send_first w = FetchOk then [] else [fallback_text])"
  by (simp add: on_error_def transmitted_send limit_went_wrong_text)























text \<open>The result of the two inserts into \<open>telegram_messages\<close> is not looked at: when both
  fail, the run answers 200, stores nothing and writes nothing with \<open>console.error\<close>.\<close>

lemma failed_insert_is_silent:
  "fst (POST_telegram sample_env sample_lib
          (calm_world\<lparr>user_insert_error := True, bot_insert_error := True\<rparr>) sample_db
          (Some (text_update ''ann'' ''How are you?''))) = \<lparr>status = 200, body = StatusOk\<rparr>
   \<and> fst (snd (POST_telegram sample_env sample_lib
          (calm_world\<lparr>user_insert_error := True, bot_insert_error := True\<rparr>) sample_db
          (Some (text_update ''ann'' ''How are you?'')))) = sample_db
   \<and> console_errors (snd (snd (POST_telegram sample_env sample_lib
          (calm_world\<lparr>user_insert_error := True, bot_insert_error := True\<rparr>) sample_db
          (Some (text_update ''ann'' ''How are you?''))))) = []"
proof -
  have h: "js_toLowerCase (js_trim ''How are you?'') \<noteq> ''/clear''"
    by code_simp
  have c: "js_truthy (TELEGRAM_BOT_TOKEN sample_env) \<and> js_truthy (GEMINI_API_KEY sample_env)"
    by (simp add: sample_env_def js_truthy_def)
  show ?thesis
    using h c
    by (simp add: POST_telegram_def processUpdate_def text_update_def js_or_def handle_text_def
          select_user_def answer_message_def insert_message_def getTelegramChatHistory_def
          fetchRelevantJournalEntries_def fetchActivities_def fetchRelevantUserContext_def
          sendTelegramMessage_def calm_world_def sample_db_def Let_def)
qed

text \<open>
  C6, as the route has it: for a sender whose account lookup finds the mapping and whose
  text, trimmed and lowercased, is \<open>/clear\<close>: when the database deletes without an error,
  every stored message of that chat identifier is deleted, the confirmation text is sent
  and a following history fetch for that chat identifier returns no message; when the
  delete reports an error, nothing is deleted and the generic error text is sent instead.
  In both cases no call of the AI pipeline is made.
\<close>

theorem linked_clear_deletes_history:
  assumes "message_text m = Some t" and "js_toLowerCase (js_trim t) = ''/clear''"
    and "chat m = Some c"
    and "select_user w db (js_or (username c) ''unknown'') = Some uid"
  shows "(\<not> messages_delete_error w \<longrightarrow>
            fst (processUpdate lib w db (Update (Some m))) =
              db\<lparr>telegram_messages :=
                    filter (\<lambda>r. telegram_chat_id r \<noteq> js_toString (chat_id c)) (telegram_messages db)\<rparr>
          \<and> fst (getTelegramChatHistory w' (fst (processUpdate lib w db (Update (Some m))))
                   (js_toString (chat_id c)) n) = []
          \<and> transmitted (snd (processUpdate lib w db (Update (Some m)))) =
              cleared_text # (if send_first w = FetchOk then [] else [fallback_text]))
       \<and> (messages_delete_error w \<longrightarrow>
            fst (processUpdate lib w db (Update (Some m))) = db
          \<and> transmitted (snd (processUpdate lib w db (Update (Some m)))) =
              went_wrong_text # (if send_first w = FetchOk then [] else [fallback_text]))
       \<and> filter ai_event (snd (processUpdate lib w db (Update (Some m)))) = []"
proof -
  have run: "processUpdate lib w db (Update (Some m)) =
               (case clearChatHistory w db (js_toString (chat_id c)) of
                  Inl _ \<Rightarrow> (db, ConsoleError ''Error clearing chat history:'' # on_error w (chat_id c))
                | Inr db' \<Rightarrow> (db', sendTelegramMessage w (chat_id c) cleared_text))"
    using assms clear_text_not_empty [of t]
    by (simp add: processUpdate_text handle_text_def)
  show ?thesis
  proof (cases "messages_delete_error w")
    case True
    then show ?thesis
      by (simp add: run clearChatHistory_def transmitted_on_error no_ai_event_on_error)
  next
    case False
    then show ?thesis
      by (simp add: run clearChatHistory_def transmitted_send no_ai_event_send
            limit_cleared_text fetch_history_after_clear)
  qed
qed

theorem linked_clear_deletes_history_witness:
  "select_user calm_world sample_db ''ann'' = Some ''u1''
   \<and> js_toLowerCase (js_trim ''/clear'') = ''/clear''
   \<and> fst (getTelegramChatHistory calm_world sample_db ''7'' 10) \<noteq> []
   \<and> fst (getTelegramChatHistory calm_world
            (fst (processUpdate sample_lib calm_world sample_db (text_update ''ann'' ''/clear''))) ''7'' 10) = []
   \<and> transmitted (snd (processUpdate sample_lib calm_world sample_db (text_update ''ann'' ''/clear'')))
       = [cleared_text]"
proof -
  let ?c = "\<lparr>chat_id = 7, username = Some ''ann''\<rparr>"
  let ?m = "\<lparr>chat = Some ?c, message_text = Some ''/clear''\<rparr>"
  have h: "js_toLowerCase (js_trim ''/clear'') = ''/clear''"
    by code_simp
  have u: "select_user calm_world sample_db (js_or (username ?c) ''unknown'') = Some ''u1''"
    by (simp add: select_user_def calm_world_def sample_db_def js_or_def)
  have s: "js_toString (chat_id ?c) = ''7''"
    by code_simp
  have b: "fst (getTelegramChatHistory calm_world sample_db ''7'' 10) \<noteq> []"
    by (simp add: getTelegramChatHistory_def get_telegram_chat_history_def calm_world_def sample_db_def)
  have d: "\<not> messages_delete_error calm_world" "send_first calm_world = FetchOk"
    by (simp_all add: calm_world_def)
  show ?thesis
    using u b d s h
      linked_clear_deletes_history [of ?m "''/clear''" ?c calm_world sample_db "''u1''" sample_lib calm_world 10, OF _ h _ u]
    by (simp add: text_update_def js_or_def fetch_history_after_clear)
qed

text \<open>
  C6 as stated fails: the sender is linked and sends \<open>/clear\<close>, the delete reports an error;
  the reply is the generic error text and the history of the chat still has its two
  messages.
\<close>

theorem failed_delete_counterexample:
  "select_user (calm_world\<lparr>messages_delete_error := True\<rparr>) sample_db ''ann'' = Some ''u1''
   \<and> processUpdate sample_lib (calm_world\<lparr>messages_delete_error := True\<rparr>) sample_db
        (text_update ''ann'' ''/clear'') =
       (sample_db,
        [ConsoleError ''Error clearing chat history:'', ConsoleError ''Error processing message:'',
         Transmit 7 went_wrong_text])
   \<and> length (fst (getTelegramChatHistory calm_world
                (fst (processUpdate sample_lib (calm_world\<lparr>messages_delete_error := True\<rparr>) sample_db
                        (text_update ''ann'' ''/clear'')))
                ''7'' 10)) = 2"
proof -
  have h: "js_toLowerCase (js_trim ''/clear'') = ''/clear''"
    by code_simp
  show ?thesis
    using h
    by (simp add: select_user_def calm_world_def sample_db_def processUpdate_def text_update_def
          js_or_def handle_text_def clearChatHistory_def on_error_def sendTelegramMessage_def
          limit_went_wrong_text getTelegramChatHistory_def get_telegram_chat_history_def)
qed

text \<open>
  C7, as the route has it: for every Telegram message that carries a non-empty text and
  comes from a sender with no matching stored account mapping, the route sends the fixed
  \<open>not linked\<close> text once (followed by the fallback text when that send fails), changes
  nothing in the database and makes no call of the AI pipeline.
\<close>

theorem unlinked_text_gets_link_reply:
  assumes "message_text m = Some t" and "t \<noteq> []" and "chat m = Some c"
    and "filter (\<lambda>r. telegram_id r = js_or (username c) ''unknown'') (telegram_users db) = []"
  shows "processUpdate lib w db (Update (Some m)) =
           (db, ConsoleError ''User not found:'' # sendTelegramMessage w (chat_id c) not_linked_text)
         \<and> transmitted (snd (processUpdate lib w db (Update (Some m)))) =
             not_linked_text # (if send_first w = FetchOk then [] else [fallback_text])
         \<and> filter ai_event (snd (processUpdate lib w db (Update (Some m)))) = []"
  using assms
  by (simp add: processUpdate_text handle_text_unlinked select_user_no_row transmitted_send
        no_ai_event_send limit_not_linked_text)

theorem unlinked_text_gets_link_reply_witness:
  "filter (\<lambda>r. telegram_id r = ''carl'') (telegram_users sample_db) = []
   \<and> processUpdate sample_lib calm_world sample_db (text_update ''carl'' ''How are you?'') =
       (sample_db, [ConsoleError ''User not found:'', Transmit 7 not_linked_text])"
proof -
  let ?c = "\<lparr>chat_id = 7, username = Some ''carl''\<rparr>"
  let ?m = "\<lparr>chat = Some ?c, message_text = Some ''How are you?''\<rparr>"
  have n: "filter (\<lambda>r. telegram_id r = ''carl'') (telegram_users sample_db) = []"
    by (simp add: sample_db_def)
  have "processUpdate sample_lib calm_world sample_db (Update (Some ?m)) =
          (sample_db, ConsoleError ''User not found:'' #
             sendTelegramMessage calm_world (chat_id ?c) not_linked_text)"
    using n unlinked_text_gets_link_reply [of ?m "''How are you?''" ?c sample_db sample_lib calm_world]
    by (simp add: js_or_def)
  then show ?thesis
    using n by (simp add: text_update_def sendTelegramMessage_def calm_world_def limit_not_linked_text)
qed

text \<open>
  C7 as stated fails: a message without text (a photo) from a sender with no stored
  mapping gets no reply at all.
\<close>

theorem photo_from_unlinked_sender_counterexample:
  "filter (\<lambda>r. telegram_id r = ''carl'') (telegram_users sample_db) = []
   \<and> processUpdate sample_lib calm_world sample_db (photo_update ''carl'') = (sample_db, [])
   \<and> transmitted (snd (processUpdate sample_lib calm_world sample_db (photo_update ''carl''))) = []"
  by (simp add: sample_db_def processUpdate_def photo_update_def)

text \<open>
  C10: the account check comes before the command: a sender with no matching stored
  account mapping who sends \<open>/clear\<close> is sent the fixed \<open>not linked\<close> text, and the database,
  the message history of the chat included, is left as it was.
\<close>

theorem unlinked_clear_deletes_nothing:
  assumes "message_text m = Some t" and "js_toLowerCase (js_trim t) = ''/clear''"
    and "chat m = Some c"
    and "filter (\<lambda>r. telegram_id r = js_or (username c) ''unknown'') (telegram_users db) = []"
  shows "fst (processUpdate lib w db (Update (Some m))) = db
         \<and> transmitted (snd (processUpdate lib w db (Update (Some m)))) =
             not_linked_text # (if send_first w = FetchOk then [] else [fallback_text])"
  using assms clear_text_not_empty [of t]
  by (simp add: processUpdate_text handle_text_unlinked select_user_no_row transmitted_send
        limit_not_linked_text)

theorem unlinked_clear_deletes_nothing_witness:
  "js_toLowerCase (js_trim '' /Clear '') = ''/clear''
   \<and> filter (\<lambda>r. telegram_id r = ''carl'') (telegram_users sample_db) = []
   \<and> fst (processUpdate sample_lib calm_world sample_db (text_update ''carl'' '' /Clear '')) = sample_db
   \<and> transmitted (snd (processUpdate sample_lib calm_world sample_db (text_update ''carl'' '' /Clear '')))
       = [not_linked_text]"
proof -
  let ?c = "\<lparr>chat_id = 7, username = Some ''carl''\<rparr>"
  let ?m = "\<lparr>chat = Some ?c, message_text = Some '' /Clear ''\<rparr>"
  have h: "js_toLowerCase (js_trim '' /Clear '') = ''/clear''"
    by code_simp
  have n: "filter (\<lambda>r. telegram_id r = ''carl'') (telegram_users sample_db) = []"
    by (simp add: sample_db_def)
  show ?thesis
    using h n unlinked_clear_deletes_nothing [of ?m "'' /Clear ''" ?c sample_db sample_lib calm_world, OF _ h]
    by (simp add: text_update_def js_or_def calm_world_def)
qed

text \<open>
  C8: for a linked sender's ordinary text message the three context fetches are made one
  after the other whatever the earlier ones returned; a fetch that fails contributes its
  empty result and a logged warning; the prompt is built from what the fetches gave and
  handed to the model, and the model's answer is sent back. (The pipeline stops early
  only on an \<open>undefined\<close> analysis, which the empty result of a failed fetch does not have,
  or on a failing model call.)
\<close>

theorem failed_fetch_degrades:
  assumes "message_text m = Some t" and "t \<noteq> []" and "chat m = Some c"
    and "select_user w db (js_or (username c) ''unknown'') = Some uid"
    and "js_toLowerCase (js_trim t) \<noteq> ''/clear''"
  shows
    "(let found = (case journals_found w uid t of None \<Rightarrow> empty_journal_context | Some r \<Rightarrow> r);
          activities = (case activities_found w of None \<Rightarrow> [] | Some a \<Rightarrow> a);
          items = (case user_context_found w uid t of None \<Rightarrow> [] | Some x \<Rightarrow> x);
          db1 = insert_message (user_insert_error w) db
                  \<lparr>telegram_chat_id = js_toString (chat_id c),
                   telegram_user_id = js_or (username c) ''unknown'',
                   content = t, is_bot = False\<rparr>;
          history = getTelegramChatHistory w db1 (js_toString (chat_id c)) 10;
          prompt = prepareChatMessages lib [\<lparr>role = ''user'', message_content = t\<rparr>]
                     (formatJournalEntries lib (entries found)) (formatActivities lib activities)
                     (moodAnalysis found) (recommendations found)
                     (formatChatHistory (fst history)) (formatUserContext lib items)
      in snd (processUpdate lib w db (Update (Some m))) =
           snd history
           @ JournalsFetched uid t # warn (journals_found w uid t = None) ''journal entries''
           @ (if moodAnalysis found = None then on_error w (chat_id c)
              else ActivitiesFetched # warn (activities_found w = None) ''activities''
                 @ UserContextFetched uid t # warn (user_context_found w uid t = None) ''user context''
                 @ GeminiSend prompt t #
                   (case gemini_reply w prompt t of
                      None \<Rightarrow> on_error w (chat_id c)
                    | Some aiResponse \<Rightarrow> sendTelegramMessage w (chat_id c) aiResponse)))"
  using assms
  by (simp add: processUpdate_text handle_text_linked answer_message_def Let_def warn_def
        fetchRelevantJournalEntries_def fetchActivities_def fetchRelevantUserContext_def
        split: option.split prod.split)

theorem failed_fetch_degrades_witness:
  "journals_found stormy_world ''u1'' ''How are you?'' = None
   \<and> activities_found stormy_world = None
   \<and> user_context_found stormy_world ''u1'' ''How are you?'' = None
   \<and> snd (processUpdate sample_lib stormy_world sample_db (text_update ''ann'' ''How are you?'')) =
      [JournalsFetched ''u1'' ''How are you?'', ConsoleWarn ''journal entries'',
       ActivitiesFetched, ConsoleWarn ''activities'',
       UserContextFetched ''u1'' ''How are you?'', ConsoleWarn ''user context'',
       GeminiSend
         (prepareChatMessages sample_lib [\<lparr>role = ''user'', message_content = ''How are you?''\<rparr>]
            (formatJournalEntries sample_lib []) (formatActivities sample_lib [])
            (Some JNull) (Some JNull)
            (formatChatHistory
               [\<lparr>telegram_chat_id = ''7'', telegram_user_id = ''ann'', content = ''How are you?'', is_bot = False\<rparr>,
                \<lparr>telegram_chat_id = ''7'', telegram_user_id = ''ann'', content = ''Hi Ann'', is_bot = True\<rparr>,
                \<lparr>telegram_chat_id = ''7'', telegram_user_id = ''ann'', content = ''hello'', is_bot = False\<rparr>])
            (formatUserContext sample_lib []))
         ''How are you?'',
       Transmit 7 ''Take a short walk.'']"
proof -
  let ?c = "\<lparr>chat_id = 7, username = Some ''ann''\<rparr>"
  let ?m = "\<lparr>chat = Some ?c, message_text = Some ''How are you?''\<rparr>"
  have h: "js_toLowerCase (js_trim ''How are you?'') \<noteq> ''/clear''"
    by code_simp
  have u: "select_user stormy_world sample_db (js_or (username ?c) ''unknown'') = Some ''u1''"
    by (simp add: select_user_def stormy_world_def calm_world_def sample_db_def js_or_def)
  have s: "js_toString 7 = ''7''"
    by code_simp
  have l: "limit_text ''Take a short walk.'' = ''Take a short walk.''"
    by (simp add: limit_text_def)
  show ?thesis
    using failed_fetch_degrades [of ?m "''How are you?''" ?c stormy_world sample_db "''u1''" sample_lib, OF _ _ _ u h]
    by (simp add: s l text_update_def js_or_def stormy_world_def calm_world_def Let_def warn_def
          getTelegramChatHistory_def get_telegram_chat_history_def insert_message_def sample_db_def
          sendTelegramMessage_def empty_journal_context_def)
qed


section \<open>The journal route\<close>

text \<open>
  C3: when the model has answered and its text, with the code fences removed and trimmed,
  is rejected by \<open>JSON.parse\<close>, \<open>generateTags\<close> returns the empty list and throws nothing;
  the failure is only logged.
\<close>

theorem malformed_tags_give_empty_list:
  assumes "generated_text w (tags_prompt c) = Some t" and "JSON_parse pf (cleanJson t) = None"
  shows "generateTags pf w c =
           (Inr (JArray []), [GenerateContent (tags_prompt c), JConsoleError ''Failed to parse tags:''])"
  using assms by (simp add: generateTags_def)

theorem malformed_tags_give_empty_list_witness:
  "generated_text sample_journal_world (tags_prompt ''A quiet day'') = Some ''Here are some tags: calm, work''
   \<and> JSON_parse node_platform (cleanJson ''Here are some tags: calm, work'') = None
   \<and> generateTags node_platform sample_journal_world ''A quiet day'' =
       (Inr (JArray []),
        [GenerateContent (tags_prompt ''A quiet day''), JConsoleError ''Failed to parse tags:''])"
proof -
  have g: "generated_text sample_journal_world (tags_prompt ''A quiet day'') = Some ''Here are some tags: calm, work''"
    by (simp add: sample_journal_world_def)
  have p: "JSON_parse node_platform (cleanJson ''Here are some tags: calm, work'') = None"
    by code_simp
  show ?thesis
    using g p malformed_tags_give_empty_list [OF g p] by simp
qed

text \<open>A fenced answer is read once the fences are gone.\<close>

lemma fenced_answer_is_read:
  "JSON_parse node_platform
     (cleanJson ([backtick, backtick, backtick] @ ''json'' @ [nl] @ ''['' @ [dq] @ ''calm'' @ [dq]
                 @ '']'' @ [nl] @ [backtick, backtick, backtick]))
   = Some (JArray [JString ''calm''])"
  by code_simp

lemma settle_log_console: "e \<in> set (settle_log out) \<Longrightarrow> \<exists>s. e = JConsoleError s"
  by (cases out) (auto split: if_splits)

lemma settle_log_no_response: "\<forall>e \<in> set (settle_log out). \<not> is_response e \<and> \<not> is_settled e"
  by (cases out) auto

lemma generateTags_events:
  "generateTags pf w c = (x, evs) \<Longrightarrow> RowInserted j \<notin> set evs"
  by (auto simp: generateTags_def split: option.splits)

lemma generateTags_no_response:
  "generateTags pf w c = (x, evs) \<Longrightarrow> \<forall>e \<in> set evs. \<not> is_response e"
  by (auto simp: generateTags_def split: option.splits)

lemma generateTags_dispatch:
  "generateTags pf (w\<lparr>dispatch_result := out\<rparr>) c = generateTags pf w c"
  by (simp add: generateTags_def)

text \<open>A run either fails with status 500 before any row is stored, or stores the row and
  goes on to the dispatch.\<close>

lemma POST_journal_unfold:
  assumes "POST_journal pf env w db req = (r, db', evs)"
  shows "(http_status r = 500 \<and> db' = db \<and> (\<forall>j. RowInserted j \<notin> set evs))
       \<or> (\<exists>b c tgs ev0 i.
             json_body req = Some b \<and> body_content b = Some c
           \<and> generateTags pf w c = (Inr tgs, ev0) \<and> insert_result w = InsertOk i
           \<and> (r, db', evs) =
               dispatch_and_return pf env w req c (body_location b)
                 (stored_row i (initialJournalData w b c tgs))
                 (db @ [stored_row i (initialJournalData w b c tgs)])
                 (ev0 @ [RowInserted (stored_row i (initialJournalData w b c tgs))]))"
  using assms
  by (simp add: POST_journal_def creation_failed_def respond_def Let_def
        split: auth_result.splits option.splits prod.splits sum.splits insert_outcome.splits)
     (auto dest: generateTags_events)

lemma POST_journal_dispatch_independent:
  "fst (POST_journal pf env (w\<lparr>dispatch_result := out\<rparr>) db req) = fst (POST_journal pf env w db req)
   \<and> fst (snd (POST_journal pf env (w\<lparr>dispatch_result := out\<rparr>) db req)) =
       fst (snd (POST_journal pf env w db req))"
  by (simp add: POST_journal_def creation_failed_def respond_def dispatch_and_return_def Let_def
        initialJournalData_def generateTags_dispatch
        split: auth_result.splits option.splits prod.splits sum.splits insert_outcome.splits)

lemma stored_row_processing:
  "is_processing (stored_row i d) = is_processing d \<and> summary (stored_row i d) = None
   \<and> mood_tags (stored_row i d) = None \<and> journal_keywords (stored_row i d) = None"
  by (simp add: stored_row_def)

lemma dispatch_and_return_ok:
  assumes "new_URL pf (js_interp (NEXT_PUBLIC_FLASK_API_URL env) @ ''/journal-async'') = Some u"
  shows "dispatch_and_return pf env w req c loc j db evs =
           (\<lparr>http_status = 200,
             http_body = Created j ''processing'' ''Journal created. Content is being processed.''\<rparr>,
            db,
            evs @
            [DispatchSent
               \<lparr>opt_hostname = hostname u, opt_port = (if port u = [] then ''443'' else port u),
                opt_path = pathname u\<rparr>
               \<lparr>payload_text = c, payload_journal_id = journal_id j,
                payload_webhook_url = webhookUrl env req,
                payload_location =
                  (case loc of None \<Rightarrow> None | Some l \<Rightarrow> Some (js_or (placeName l) ''pune''))\<rparr>,
             DispatchSettled (dispatch_result w)] @
            settle_log (dispatch_result w) @
            [ResponseReturned
               \<lparr>http_status = 200,
                http_body = Created j ''processing'' ''Journal created. Content is being processed.''\<rparr>])"
  using assms by (simp add: dispatch_and_return_def respond_def)

lemma dispatch_and_return_bad_url:
  assumes "new_URL pf (js_interp (NEXT_PUBLIC_FLASK_API_URL env) @ ''/journal-async'') = None"
  shows "dispatch_and_return pf env w req c loc j db evs =
           (\<lparr>http_status = 500, http_body = ErrorBody ''Failed to create journal''\<rparr>, db,
            evs @ [JConsoleError ''Journal creation error:'',
                   ResponseReturned \<lparr>http_status = 500, http_body = ErrorBody ''Failed to create journal''\<rparr>])"
  using assms by (simp add: dispatch_and_return_def creation_failed_def respond_def)

lemma settled_before_responseI:
  assumes "\<forall>e \<in> set pre. \<not> is_response e" and "\<forall>e \<in> set post. \<not> is_response e"
  shows "settled_before_response
           (pre @ [DispatchSent opts payload, DispatchSettled out] @ post @ [ResponseReturned r])"
proof -
  have "takeWhile (\<lambda>e. \<not> is_response e)
          ((pre @ [DispatchSent opts payload, DispatchSettled out] @ post) @ [ResponseReturned r]) =
        pre @ [DispatchSent opts payload, DispatchSettled out] @ post"
    using assms by (intro takeWhile_append2 [THEN trans]) auto
  then show ?thesis
    by (simp add: settled_before_response_def list_ex_iff)
qed

lemma sample_tags_rejected:
  "JSON_parse node_platform (cleanJson ''Here are some tags: calm, work'') = None"
  by code_simp

lemma sample_url_accepted:
  "new_URL node_platform (js_interp (NEXT_PUBLIC_FLASK_API_URL sample_journal_env) @ ''/journal-async'')
   = Some \<lparr>hostname = ''flask.example.com'', port = [], pathname = ''/journal-async''\<rparr>"
  by code_simp

text \<open>Where the inner \<open>try\<close> covers the dispatch: once the row is stored and the address of
  the processing service is accepted by the \<open>URL\<close> constructor, the handler returns the
  created row with \<open>is_processing\<close> true, no summary, mood tags or keywords, and status
  \<open>processing\<close>, however the dispatch settles: answered with 200 or another status, with a
  network error, or timed out.\<close>

lemma dispatch_failures_return_row:
  assumes "RowInserted j \<in> set (snd (snd (POST_journal pf env w db req)))"
    and "new_URL pf (js_interp (NEXT_PUBLIC_FLASK_API_URL env) @ ''/journal-async'') = Some u"
  shows "fst (POST_journal pf env (w\<lparr>dispatch_result := out\<rparr>) db req) =
           \<lparr>http_status = 200,
            http_body = Created j ''processing'' ''Journal created. Content is being processed.''\<rparr>
         \<and> is_processing j \<and> summary j = None \<and> mood_tags j = None \<and> journal_keywords j = None"
proof -
  obtain r db' evs where run: "POST_journal pf env w db req = (r, db', evs)"
    by (cases "POST_journal pf env w db req") auto
  from assms(1) run have ins: "RowInserted j \<in> set evs"
    by simp
  with POST_journal_unfold [OF run]
  obtain b c tgs ev0 i where
    tg: "generateTags pf w c = (Inr tgs, ev0)" and
    d: "(r, db', evs) =
         dispatch_and_return pf env w req c (body_location b)
           (stored_row i (initialJournalData w b c tgs))
           (db @ [stored_row i (initialJournalData w b c tgs)])
           (ev0 @ [RowInserted (stored_row i (initialJournalData w b c tgs))])"
    by auto
  let ?j = "stored_row i (initialJournalData w b c tgs)"
  note d' = d [unfolded dispatch_and_return_ok [OF assms(2)]]
  have "j = ?j"
    using ins generateTags_events [OF tg, of j]
      settle_log_console [of "RowInserted j" "dispatch_result w"] d'
    by auto
  moreover have "r = \<lparr>http_status = 200,
                 http_body = Created ?j ''processing'' ''Journal created. Content is being processed.''\<rparr>"
    using d' by simp
  ultimately show ?thesis
    using POST_journal_dispatch_independent
            [where pf = pf and env = env and w = w and out = out and db = db and req = req] run
    by (simp add: stored_row_processing initialJournalData_def)
qed

lemma dispatch_failures_return_row_example:
  "RowInserted sample_journal \<in> set (snd (snd
      (POST_journal node_platform sample_journal_env sample_journal_world [] sample_journal_request)))
   \<and> fst (POST_journal node_platform sample_journal_env
        (sample_journal_world\<lparr>dispatch_result := FlaskTimeout\<rparr>) [] sample_journal_request) =
      \<lparr>http_status = 200,
       http_body = Created sample_journal ''processing'' ''Journal created. Content is being processed.''\<rparr>
   \<and> is_processing sample_journal \<and> summary sample_journal = None"
proof -
  have i: "RowInserted sample_journal \<in> set (snd (snd
      (POST_journal node_platform sample_journal_env sample_journal_world [] sample_journal_request)))"
    using sample_tags_rejected
    by (simp add: POST_journal_def sample_journal_world_def sample_journal_request_def
          generateTags_def dispatch_and_return_ok [OF sample_url_accepted] initialJournalData_def
          stored_row_def sample_journal_def Let_def)
  show ?thesis
    using i dispatch_failures_return_row [OF i sample_url_accepted, where out = FlaskTimeout] by simp
qed

text \<open>
  C1: in every journal creation request in which the insert succeeds, the handler is to
  return the created row with \<open>is_processing\<close> true, the enrichment fields absent and status
  \<open>processing\<close>, whatever becomes of the dispatch. The route misses one case: the address
  of the processing service is turned into a \<open>URL\<close> after the insert and outside the inner
  \<open>try\<close>. In the run below that address is not configured: the insert succeeds, the row is
  stored with \<open>is_processing\<close> true, and the handler answers 500 instead of returning it.
\<close>

theorem unset_service_url_answers_500:
  "POST_journal node_platform \<lparr>NODE_ENV = Some ''production'', NEXT_PUBLIC_FLASK_API_URL = None\<rparr>
     sample_journal_world [] sample_journal_request =
   (\<lparr>http_status = 500, http_body = ErrorBody ''Failed to create journal''\<rparr>,
    [sample_journal],
    [GenerateContent (tags_prompt ''A quiet day''), JConsoleError ''Failed to parse tags:'',
     RowInserted sample_journal, JConsoleError ''Journal creation error:'',
     ResponseReturned \<lparr>http_status = 500, http_body = ErrorBody ''Failed to create journal''\<rparr>])"
proof -
  have u: "new_URL node_platform
             (js_interp (NEXT_PUBLIC_FLASK_API_URL \<lparr>NODE_ENV = Some ''production'', NEXT_PUBLIC_FLASK_API_URL = None\<rparr>)
              @ ''/journal-async'') = None"
    by code_simp
  show ?thesis
    using sample_tags_rejected
    by (simp add: POST_journal_def sample_journal_world_def sample_journal_request_def
          generateTags_def dispatch_and_return_bad_url [OF u] initialJournalData_def stored_row_def
          sample_journal_def Let_def)
qed

text \<open>
  C2, as the route has it: the response path awaits the dispatch. In every run that ends
  with the success response, the request to the processing service has been sent and its
  promise has settled (answered, failed or timed out) before the response is returned;
  how it settled changes neither the response nor the stored rows, only the log.
\<close>

theorem response_waits_for_dispatch:
  assumes "http_status (fst (POST_journal pf env w db req)) = 200"
  shows "settled_before_response (snd (snd (POST_journal pf env w db req)))
       \<and> (\<exists>pre opts payload.
             snd (snd (POST_journal pf env w db req)) =
               pre @ [DispatchSent opts payload, DispatchSettled (dispatch_result w)]
                   @ settle_log (dispatch_result w)
                   @ [ResponseReturned (fst (POST_journal pf env w db req))])
       \<and> fst (POST_journal pf env (w\<lparr>dispatch_result := out\<rparr>) db req) =
           fst (POST_journal pf env w db req)
       \<and> fst (snd (POST_journal pf env (w\<lparr>dispatch_result := out\<rparr>) db req)) =
           fst (snd (POST_journal pf env w db req))"
proof -
  obtain r db' evs where run: "POST_journal pf env w db req = (r, db', evs)"
    by (cases "POST_journal pf env w db req") auto
  with assms have ok: "http_status r = 200"
    by simp
  with POST_journal_unfold [OF run]
  obtain b c tgs ev0 i where
    tg: "generateTags pf w c = (Inr tgs, ev0)" and
    d: "(r, db', evs) =
         dispatch_and_return pf env w req c (body_location b)
           (stored_row i (initialJournalData w b c tgs))
           (db @ [stored_row i (initialJournalData w b c tgs)])
           (ev0 @ [RowInserted (stored_row i (initialJournalData w b c tgs))])"
    by auto
  obtain u where u: "new_URL pf (js_interp (NEXT_PUBLIC_FLASK_API_URL env) @ ''/journal-async'') = Some u"
    using d ok
    by (cases "new_URL pf (js_interp (NEXT_PUBLIC_FLASK_API_URL env) @ ''/journal-async'')")
       (auto simp: dispatch_and_return_bad_url)
  let ?pre = "ev0 @ [RowInserted (stored_row i (initialJournalData w b c tgs))]"
  from d [unfolded dispatch_and_return_ok [OF u]]
  obtain opts payload where
    evs: "evs = ?pre @ [DispatchSent opts payload, DispatchSettled (dispatch_result w)]
                  @ settle_log (dispatch_result w) @ [ResponseReturned r]"
    by simp
  have pre: "\<forall>e \<in> set ?pre. \<not> is_response e"
    using generateTags_no_response [OF tg] by simp
  have "settled_before_response evs"
    unfolding evs using pre settle_log_no_response [of "dispatch_result w"]
    by (intro settled_before_responseI) auto
  then show ?thesis
    using evs run POST_journal_dispatch_independent
            [where pf = pf and env = env and w = w and out = out and db = db and req = req]
    by auto
qed

theorem response_waits_for_dispatch_witness:
  "http_status (fst (POST_journal node_platform sample_journal_env sample_journal_world []
                       sample_journal_request)) = 200
   \<and> settled_before_response
        (snd (snd (POST_journal node_platform sample_journal_env sample_journal_world []
                     sample_journal_request)))
   \<and> fst (POST_journal node_platform sample_journal_env
            (sample_journal_world\<lparr>dispatch_result := FlaskRequestError ''ECONNREFUSED''\<rparr>) []
            sample_journal_request) =
       fst (POST_journal node_platform sample_journal_env sample_journal_world [] sample_journal_request)"
proof -
  have s: "http_status (fst (POST_journal node_platform sample_journal_env sample_journal_world []
                       sample_journal_request)) = 200"
    using sample_tags_rejected
    by (simp add: POST_journal_def sample_journal_world_def sample_journal_request_def
          generateTags_def dispatch_and_return_ok [OF sample_url_accepted] Let_def)
  show ?thesis
    using s response_waits_for_dispatch [OF s, where out = "FlaskRequestError ''ECONNREFUSED''"]
    by simp
qed

text \<open>
  C2 as stated fails: in the run below the processing service answers 200, and the event
  of that answer stands before the response in the trace: the response was not released
  while the dispatch was still under way.
\<close>

theorem response_after_settlement_counterexample:
  "snd (snd (POST_journal node_platform sample_journal_env sample_journal_world []
               sample_journal_request)) =
     [GenerateContent (tags_prompt ''A quiet day''), JConsoleError ''Failed to parse tags:'',
      RowInserted sample_journal,
      DispatchSent
        \<lparr>opt_hostname = ''flask.example.com'', opt_port = ''443'', opt_path = ''/journal-async''\<rparr>
        \<lparr>payload_text = ''A quiet day'', payload_journal_id = ''j1'',
         payload_webhook_url = ''https://serenity.example.com/api/journal/webhook'',
         payload_location = None\<rparr>,
      DispatchSettled (FlaskResponded 200 ''queued''),
      ResponseReturned
        \<lparr>http_status = 200,
         http_body = Created sample_journal ''processing''
                       ''Journal created. Content is being processed.''\<rparr>]
   \<and> settled_before_response
        (snd (snd (POST_journal node_platform sample_journal_env sample_journal_world []
                     sample_journal_request)))"
proof -
  have n: "NODE_ENV sample_journal_env = Some ''production''"
    by (simp add: sample_journal_env_def)
  have e: "snd (snd (POST_journal node_platform sample_journal_env sample_journal_world []
               sample_journal_request)) =
     [GenerateContent (tags_prompt ''A quiet day''), JConsoleError ''Failed to parse tags:'',
      RowInserted sample_journal,
      DispatchSent
        \<lparr>opt_hostname = ''flask.example.com'', opt_port = ''443'', opt_path = ''/journal-async''\<rparr>
        \<lparr>payload_text = ''A quiet day'', payload_journal_id = ''j1'',
         payload_webhook_url = ''https://serenity.example.com/api/journal/webhook'',
         payload_location = None\<rparr>,
      DispatchSettled (FlaskResponded 200 ''queued''),
      ResponseReturned
        \<lparr>http_status = 200,
         http_body = Created sample_journal ''processing''
                       ''Journal created. Content is being processed.''\<rparr>]"
    using sample_tags_rejected n
    by (simp add: POST_journal_def sample_journal_world_def sample_journal_request_def
          generateTags_def dispatch_and_return_ok [OF sample_url_accepted] Let_def
          initialJournalData_def stored_row_def sample_journal_def webhookUrl_def js_or_def)
  show ?thesis
    unfolding e by (simp add: settled_before_response_def)
qed

end
